theory Spec2Isabelle
  imports Complex_Main
begin

section \<open>Values, entities and errors\<close>

text \<open>
  The module \<^verbatim>\<open>pygmsh/opencascade/geometry.py\<close> holds one class, \<^verbatim>\<open>Geometry\<close>.
  Its methods read four attributes of the entities they are given
  (\<^verbatim>\<open>dimension\<close>, \<^verbatim>\<open>id\<close>, \<^verbatim>\<open>dim_tags\<close>, \<^verbatim>\<open>code\<close>), keep deferred
  actions in lists owned by the object, and talk to the \<^verbatim>\<open>gmsh\<close> kernel.

  A dim-tag is a pair of integers; the attribute \<^verbatim>\<open>dim_tags\<close> of an entity is one
  dim-tag or a list of them, and the code builds lists around them, so the values that
  travel to and from the kernel are modelled as a small universe of Python values.
  Equality of \<open>pyval\<close> is structural, as \<^verbatim>\<open>==\<close> is on tuples and lists.
\<close>

datatype pyval = DimTag int int | PyList "pyval list"

text \<open>An entity id is an integer or a string; \<open>str_id\<close> below is its \<^verbatim>\<open>str()\<close>.\<close>

datatype ident = IdInt int | IdStr string

record entity =
  dimension :: int
  ent_id :: ident
  dim_tags :: pyval
  code :: string

text \<open>
  Every \<^verbatim>\<open>raise\<close> of the module is a value of \<open>error\<close>. The three
  \<^verbatim>\<open>assert\<close> statements raise \<^verbatim>\<open>AssertionError\<close>; they are told apart here by
  what they check: \<open>IllegalDimension\<close> is the assertion of line 116
  (\<^verbatim>\<open>Illegal input type\<close>), \<open>IncompatibleDimension\<close> the one of line 120
  (\<^verbatim>\<open>Incompatible input type\<close>), \<open>InconsistentBooleanResult\<close> the ones of lines
  187 and 212. \<open>KernelError\<close> is an exception raised inside a kernel call, which
  the module lets through.
\<close>

datatype error =
    AttributeError
  | IndexError
  | KeyError
  | TypeError
  | IllegalDimension
  | IncompatibleDimension
  | InconsistentBooleanResult
  | KernelError string

text \<open>
  The classes \<^verbatim>\<open>SurfaceBase\<close>, \<^verbatim>\<open>VolumeBase\<close> and \<^verbatim>\<open>Boolean\<close> are imported
  from sibling modules; an object of one of them is represented by the constructor call
  that made it: \<^verbatim>\<open>SurfaceBase(id0=name, is_list=flag)\<close>,
  \<^verbatim>\<open>VolumeBase(id0=name, is_list=flag)\<close>, \<^verbatim>\<open>Boolean(dim_tags, operation)\<close>.
\<close>

datatype obj =
    SurfaceBase string bool
  | VolumeBase string bool
  | Boolean pyval string

section \<open>The Geometry object and the kernel\<close>

text \<open>
  The attributes of a \<^verbatim>\<open>Geometry\<close> object. \<^verbatim>\<open>__init__\<close> creates the seven queues;
  \<^verbatim>\<open>_BOOLEAN_ID\<close> and \<^verbatim>\<open>_GMSH_CODE\<close> are read and written by the methods but are
  not created by \<^verbatim>\<open>__init__\<close>, so each is optional: \<open>None\<close> is the attribute being
  absent, and reading it raises \<^verbatim>\<open>AttributeError\<close>. Mesh sizes and option values
  are numbers that the module only stores and forwards.
\<close>

type_synonym deferred = "entity \<times> pyval"

record geometry =
  AFTER_SYNC_QUEUE :: "deferred list"
  EMBED_QUEUE :: "deferred list"
  COMPOUND_ENTITIES :: "deferred list"
  RECOMBINE_ENTITIES :: "deferred list"
  TRANSFINITE_CURVE_QUEUE :: "deferred list"
  TRANSFINITE_SURFACE_QUEUE :: "deferred list"
  SIZE_QUEUE :: "(entity \<times> real) list"
  BOOLEAN_ID :: "int option"
  GMSH_CODE :: "string list option"

text \<open>
  The calls the module makes into \<^verbatim>\<open>gmsh\<close>. The kernel is outside the program: it is
  a parameter, a function from the calls made so far and the present call to what that
  call returns (the first component of the pair the boolean calls return; the second is
  discarded by the code) or raises.
\<close>

datatype kcall =
    Initialize
  | SetNumber string real
  | Finalize
  | Synchronize
  | Intersect pyval pyval bool bool
  | Fuse pyval pyval bool bool
  | Cut pyval pyval

type_synonym kernel = "kcall list \<Rightarrow> kcall \<Rightarrow> error + pyval list"

text \<open>
  What a method can change: the object, the calls received by the kernel, and the
  objects printed on standard output.
\<close>

record world =
  geom :: geometry
  kcalls :: "kcall list"
  stdout :: "entity list"

definition kernel_call :: "kernel \<Rightarrow> kcall \<Rightarrow> world \<Rightarrow> (error + pyval list) \<times> world" where
  "kernel_call kern c w = (kern (kcalls w) c, w\<lparr>kcalls := kcalls w @ [c]\<rparr>)"

subsection \<open>Construction, teardown, synchronisation\<close>

definition new_geometry :: geometry where
  "new_geometry =
     \<lparr>AFTER_SYNC_QUEUE = [], EMBED_QUEUE = [], COMPOUND_ENTITIES = [],
      RECOMBINE_ENTITIES = [], TRANSFINITE_CURVE_QUEUE = [],
      TRANSFINITE_SURFACE_QUEUE = [], SIZE_QUEUE = [],
      BOOLEAN_ID = None, GMSH_CODE = None\<rparr>"

definition set_number :: "kernel \<Rightarrow> string \<Rightarrow> real option \<Rightarrow> world \<Rightarrow> (error + unit) \<times> world" where
  "set_number kern name v w =
     (case v of
        None \<Rightarrow> (Inr (), w)
      | Some x \<Rightarrow>
          (case kernel_call kern (SetNumber name x) w of
             (Inl e, w') \<Rightarrow> (Inl e, w')
           | (Inr r, w') \<Rightarrow> (Inr (), w')))"

definition init :: "kernel \<Rightarrow> real option \<Rightarrow> real option \<Rightarrow> world \<Rightarrow> (error + unit) \<times> world" where
  "init kern characteristic_length_min characteristic_length_max w =
     (let w0 = w\<lparr>geom := new_geometry\<rparr> in
      case kernel_call kern Initialize w0 of
        (Inl e, w1) \<Rightarrow> (Inl e, w1)
      | (Inr r, w1) \<Rightarrow>
          (case set_number kern ''Mesh.CharacteristicLengthMin'' characteristic_length_min w1 of
             (Inl e, w2) \<Rightarrow> (Inl e, w2)
           | (Inr u, w2) \<Rightarrow>
               set_number kern ''Mesh.CharacteristicLengthMax'' characteristic_length_max w2))"

definition del :: "kernel \<Rightarrow> world \<Rightarrow> (error + unit) \<times> world" where
  "del kern w =
     (case kernel_call kern Finalize w of
        (Inl e, w') \<Rightarrow> (Inl e, w')
      | (Inr r, w') \<Rightarrow> (Inr (), w'))"

definition synchronize :: "kernel \<Rightarrow> world \<Rightarrow> (error + unit) \<times> world" where
  "synchronize kern w =
     (case kernel_call kern Synchronize w of
        (Inl e, w') \<Rightarrow> (Inl e, w')
      | (Inr r, w') \<Rightarrow> (Inr (), w'))"

section \<open>Primitive shapes\<close>

text \<open>
  The shape classes are imported from sibling modules; \<open>entity\<close> (or \<open>p\<close>) is the
  object their constructor returned for the positional and keyword arguments of the call.
  The first five methods take \<^verbatim>\<open>mesh_size\<close> as a keyword of their own, \<open>None\<close> by
  default. The last four have no such parameter: a \<^verbatim>\<open>mesh_size\<close> keyword given to
  them is part of \<^verbatim>\<open>**kwargs\<close> and goes to the shape constructor; they append the
  entity's \<^verbatim>\<open>code\<close> to \<^verbatim>\<open>self._GMSH_CODE\<close>.
\<close>

definition add_rectangle :: "geometry \<Rightarrow> entity \<Rightarrow> real option \<Rightarrow> entity \<times> geometry" where
  "add_rectangle self entity mesh_size =
     (case mesh_size of
        None \<Rightarrow> (entity, self)
      | Some m \<Rightarrow> (entity, self\<lparr>SIZE_QUEUE := SIZE_QUEUE self @ [(entity, m)]\<rparr>))"

definition add_disk :: "geometry \<Rightarrow> entity \<Rightarrow> real option \<Rightarrow> entity \<times> geometry" where
  "add_disk self entity mesh_size =
     (case mesh_size of
        None \<Rightarrow> (entity, self)
      | Some m \<Rightarrow> (entity, self\<lparr>SIZE_QUEUE := SIZE_QUEUE self @ [(entity, m)]\<rparr>))"

definition add_ball :: "geometry \<Rightarrow> entity \<Rightarrow> real option \<Rightarrow> entity \<times> geometry" where
  "add_ball self cone mesh_size =
     (case mesh_size of
        None \<Rightarrow> (cone, self)
      | Some m \<Rightarrow> (cone, self\<lparr>SIZE_QUEUE := SIZE_QUEUE self @ [(cone, m)]\<rparr>))"

definition add_box :: "geometry \<Rightarrow> entity \<Rightarrow> real option \<Rightarrow> entity \<times> geometry" where
  "add_box self box mesh_size =
     (case mesh_size of
        None \<Rightarrow> (box, self)
      | Some m \<Rightarrow> (box, self\<lparr>SIZE_QUEUE := SIZE_QUEUE self @ [(box, m)]\<rparr>))"

definition add_cone :: "geometry \<Rightarrow> entity \<Rightarrow> real option \<Rightarrow> entity \<times> geometry" where
  "add_cone self cone mesh_size =
     (case mesh_size of
        None \<Rightarrow> (cone, self)
      | Some m \<Rightarrow> (cone, self\<lparr>SIZE_QUEUE := SIZE_QUEUE self @ [(cone, m)]\<rparr>))"

definition add_cylinder :: "geometry \<Rightarrow> entity \<Rightarrow> (error + entity) \<times> geometry" where
  "add_cylinder self p =
     (case GMSH_CODE self of
        None \<Rightarrow> (Inl AttributeError, self)
      | Some c \<Rightarrow> (Inr p, self\<lparr>GMSH_CODE := Some (c @ [code p])\<rparr>))"

definition add_ellipsoid :: "geometry \<Rightarrow> entity \<Rightarrow> (error + entity) \<times> geometry" where
  "add_ellipsoid self p =
     (case GMSH_CODE self of
        None \<Rightarrow> (Inl AttributeError, self)
      | Some c \<Rightarrow> (Inr p, self\<lparr>GMSH_CODE := Some (c @ [code p])\<rparr>))"

definition add_torus :: "geometry \<Rightarrow> entity \<Rightarrow> (error + entity) \<times> geometry" where
  "add_torus self p =
     (case GMSH_CODE self of
        None \<Rightarrow> (Inl AttributeError, self)
      | Some c \<Rightarrow> (Inr p, self\<lparr>GMSH_CODE := Some (c @ [code p])\<rparr>))"

definition add_wedge :: "geometry \<Rightarrow> entity \<Rightarrow> (error + entity) \<times> geometry" where
  "add_wedge self p =
     (case GMSH_CODE self of
        None \<Rightarrow> (Inl AttributeError, self)
      | Some c \<Rightarrow> (Inr p, self\<lparr>GMSH_CODE := Some (c @ [code p])\<rparr>))"

section \<open>Script-mode boolean operations\<close>

subsection \<open>String formatting\<close>

text \<open>\<^verbatim>\<open>str()\<close> of an integer, as the f-strings and \<^verbatim>\<open>%s\<close> produce it.\<close>

fun str_nat :: "nat \<Rightarrow> string" where
  "str_nat n =
     (if n < 10 then [char_of (48 + n)]
      else str_nat (n div 10) @ [char_of (48 + n mod 10)])"

declare str_nat.simps [simp del]

definition str_int :: "int \<Rightarrow> string" where
  "str_int i = (if i < 0 then CHR ''-'' # str_nat (nat (- i)) else str_nat (nat i))"

fun str_id :: "ident \<Rightarrow> string" where
  "str_id (IdInt i) = str_int i"
| "str_id (IdStr s) = s"

text \<open>\<^verbatim>\<open>sep.join(xs)\<close>\<close>

fun join :: "string \<Rightarrow> string list \<Rightarrow> string" where
  "join sep [] = []"
| "join sep [x] = x"
| "join sep (x # y # ys) = x @ sep @ join sep (y # ys)"

subsection \<open>\<^verbatim>\<open>_boolean_operation\<close> and \<^verbatim>\<open>boolean_fragments\<close>\<close>

text \<open>The two dictionaries of \<^verbatim>\<open>_boolean_operation\<close>, in insertion order.\<close>

definition legal_dim_types :: "(int \<times> string) list" where
  "legal_dim_types = [(1, ''Line''), (2, ''Surface''), (3, ''Volume'')]"

definition mapping :: "(string \<times> (string \<Rightarrow> bool \<Rightarrow> obj) option) list" where
  "mapping = [(''Line'', None), (''Surface'', Some SurfaceBase), (''Volume'', Some VolumeBase)]"

definition format_entities :: "string \<Rightarrow> entity list \<Rightarrow> string" where
  "format_entities legal_dim_type es =
     (if es \<noteq> []
      then join '';'' (map (\<lambda>e. legal_dim_type @ ''{'' @ str_id (ent_id e) @ ''}'') es) @ '';''
      else [])"

definition format_command :: "string \<Rightarrow> string \<Rightarrow> string \<Rightarrow> string \<Rightarrow> string \<Rightarrow> string \<Rightarrow> string" where
  "format_command name operation ientities idelete tentities tdelete =
     name @ ''[] = '' @ operation @ ''{ '' @ ientities @ '' '' @ idelete @ '' } { ''
       @ tentities @ '' '' @ tdelete @ ''};''"

text \<open>
  The method, statement by statement: the counter is advanced (line 107), the dimension
  of the first input is looked up among the legal ones (lines 110 to 118), the other
  operands are compared with it (lines 119 to 122), the command is formatted and appended
  (lines 124 to 168), and the class found for the dimension is called (lines 169, 170).
  An exception leaves the object as the statements before it made it.
\<close>

definition boolean_operation ::
  "geometry \<Rightarrow> string \<Rightarrow> entity list \<Rightarrow> entity list \<Rightarrow> bool \<Rightarrow> bool \<Rightarrow> (error + obj) \<times> geometry" where
  "boolean_operation self operation input_entities tool_entities delete_first delete_other =
     (case BOOLEAN_ID self of
        None \<Rightarrow> (Inl AttributeError, self)
      | Some b \<Rightarrow>
          (let self1 = self\<lparr>BOOLEAN_ID := Some (b + 1)\<rparr> in
           case input_entities of
             [] \<Rightarrow> (Inl IndexError, self1)
           | e0 # rest \<Rightarrow>
               (case find (\<lambda>ldt. dimension e0 = ldt) (map fst legal_dim_types) of
                  None \<Rightarrow> (Inl IllegalDimension, self1)
                | Some dim' \<Rightarrow>
                    if \<not> list_all (\<lambda>e. dimension e = dim') (rest @ tool_entities)
                    then (Inl IncompatibleDimension, self1)
                    else
                      (let name = ''bo'' @ str_int (b + 1);
                           input_delete = (if delete_first then ''Delete;'' else []);
                           tool_delete = (if delete_other then ''Delete;'' else [])
                       in case map_of legal_dim_types dim' of
                            None \<Rightarrow> (Inl KeyError, self1)
                          | Some legal_dim_type \<Rightarrow>
                              (case GMSH_CODE self1 of
                                 None \<Rightarrow> (Inl AttributeError, self1)
                               | Some c \<Rightarrow>
                                   (let self2 = self1\<lparr>GMSH_CODE := Some (c @
                                          [format_command name operation
                                             (format_entities legal_dim_type input_entities)
                                             input_delete
                                             (format_entities legal_dim_type tool_entities)
                                             tool_delete])\<rparr>
                                    in case map_of mapping legal_dim_type of
                                         None \<Rightarrow> (Inl KeyError, self2)
                                       | Some None \<Rightarrow> (Inl TypeError, self2)
                                       | Some (Some cls) \<Rightarrow> (Inr (cls name True), self2)))))))"

definition boolean_fragments ::
  "geometry \<Rightarrow> entity list \<Rightarrow> entity list \<Rightarrow> bool \<Rightarrow> bool \<Rightarrow> (error + obj) \<times> geometry" where
  "boolean_fragments self input_entities tool_entities delete_first delete_other =
     boolean_operation self ''BooleanFragments'' input_entities tool_entities delete_first delete_other"

text \<open>
  The checks of lines 110 to 122 on their own: what they raise for given operands, or
  \<open>None\<close> when they pass. They are the checks \<open>boolean_operation\<close> makes once the
  counter has been advanced.
\<close>

definition dimension_check :: "entity list \<Rightarrow> entity list \<Rightarrow> error option" where
  "dimension_check input_entities tool_entities =
     (case input_entities of
        [] \<Rightarrow> Some IndexError
      | e0 # rest \<Rightarrow>
          (case find (\<lambda>ldt. dimension e0 = ldt) (map fst legal_dim_types) of
             None \<Rightarrow> Some IllegalDimension
           | Some dim' \<Rightarrow>
               if \<not> list_all (\<lambda>e. dimension e = dim') (rest @ tool_entities)
               then Some IncompatibleDimension
               else None))"

section \<open>Direct-kernel boolean operations\<close>

text \<open>
  The loop of \<^verbatim>\<open>boolean_intersection\<close> over \<^verbatim>\<open>entities[1:]\<close>, \<open>ent\<close> being the
  running result. The generator given to \<^verbatim>\<open>all\<close> reads \<^verbatim>\<open>out[0]\<close> once for each
  item, so an empty \<open>out\<close> passes the assertion and the assignment after it raises
  \<^verbatim>\<open>IndexError\<close>; on any other \<open>out\<close>, \<^verbatim>\<open>out[0]\<close> is its head \<open>o0\<close>.
\<close>

fun intersection_loop :: "kernel \<Rightarrow> pyval \<Rightarrow> entity list \<Rightarrow> world \<Rightarrow> (error + pyval) \<times> world" where
  "intersection_loop kern ent [] w = (Inr ent, w)"
| "intersection_loop kern ent (e # es) w =
     (case kernel_call kern (Intersect (PyList [ent]) (PyList [dim_tags e]) True True) w of
        (Inl err, w') \<Rightarrow> (Inl err, w')
      | (Inr out, w') \<Rightarrow>
          (case out of
             [] \<Rightarrow> (Inl IndexError, w')
           | o0 # os \<Rightarrow>
               if \<not> list_all (\<lambda>item. o0 = item) out
               then (Inl InconsistentBooleanResult, w')
               else intersection_loop kern o0 es w'))"

definition boolean_intersection :: "kernel \<Rightarrow> entity list \<Rightarrow> world \<Rightarrow> (error + obj) \<times> world" where
  "boolean_intersection kern entities w =
     (case entities of
        [] \<Rightarrow> (Inl IndexError, w)
      | e0 # rest \<Rightarrow>
          (case intersection_loop kern (dim_tags e0) rest w of
             (Inl err, w') \<Rightarrow> (Inl err, w')
           | (Inr ent, w') \<Rightarrow> (Inr (Boolean (PyList [ent]) ''Intersection''), w')))"

definition boolean_union :: "kernel \<Rightarrow> entity list \<Rightarrow> world \<Rightarrow> (error + obj) \<times> world" where
  "boolean_union kern entities w =
     (case entities of
        [] \<Rightarrow> (Inl IndexError, w)
      | e0 # rest \<Rightarrow>
          (case kernel_call kern
                  (Fuse (PyList [dim_tags e0]) (PyList (map dim_tags rest)) True True) w of
             (Inl err, w') \<Rightarrow> (Inl err, w')
           | (Inr out, w') \<Rightarrow> (Inr (Boolean (PyList out) ''Union''), w')))"

definition boolean_difference :: "kernel \<Rightarrow> entity \<Rightarrow> entity \<Rightarrow> world \<Rightarrow> (error + obj) \<times> world" where
  "boolean_difference kern d0 d1 w =
     (let w1 = w\<lparr>stdout := stdout w @ [d0]\<rparr>;
          w2 = w1\<lparr>stdout := stdout w1 @ [d1]\<rparr>
      in case kernel_call kern (Cut (dim_tags d0) (dim_tags d1)) w2 of
           (Inl err, w') \<Rightarrow> (Inl err, w')
         | (Inr out, w') \<Rightarrow>
             if length out = 1
             then (Inr (Boolean (PyList out) ''Difference''), w')
             else (Inl InconsistentBooleanResult, w'))"

section \<open>Sequences of calls\<close>

text \<open>
  A client calls the boolean operations of one model one after the other. \<open>perform\<close>
  dispatches one call to the method it names; \<open>run\<close> makes the calls in order on the
  same object and kernel and collects what each returned or raised (the client catches
  the exception and goes on). \<open>is_script\<close> tells the calls that go through
  \<^verbatim>\<open>_boolean_operation\<close>.
\<close>

datatype call =
    CallFragments "entity list" "entity list" bool bool
  | CallUnion "entity list"
  | CallDifference entity entity
  | CallIntersection "entity list"

fun is_script :: "call \<Rightarrow> bool" where
  "is_script (CallFragments ins tools df dt) = True"
| "is_script (CallUnion es) = False"
| "is_script (CallDifference d0 d1) = False"
| "is_script (CallIntersection es) = False"

fun perform :: "kernel \<Rightarrow> call \<Rightarrow> world \<Rightarrow> (error + obj) \<times> world" where
  "perform kern (CallFragments ins tools df dt) w =
     (case boolean_fragments (geom w) ins tools df dt of (r, g) \<Rightarrow> (r, w\<lparr>geom := g\<rparr>))"
| "perform kern (CallUnion es) w = boolean_union kern es w"
| "perform kern (CallDifference d0 d1) w = boolean_difference kern d0 d1 w"
| "perform kern (CallIntersection es) w = boolean_intersection kern es w"

fun run :: "kernel \<Rightarrow> call list \<Rightarrow> world \<Rightarrow> (error + obj) list \<times> world" where
  "run kern [] w = ([], w)"
| "run kern (c # cs) w =
     (case perform kern c w of (r, w1) \<Rightarrow>
        (case run kern cs w1 of (rs, w2) \<Rightarrow> (r # rs, w2)))"

section \<open>The models the program builds\<close>

text \<open>
  A \<^verbatim>\<open>Geometry\<close> object comes from \<^verbatim>\<open>__init__\<close> and is changed only by the
  methods of the class. \<open>reachable kern w\<close> holds of the worlds so obtained, with
  kernel \<open>kern\<close>: the world \<^verbatim>\<open>__init__\<close> leaves (whatever the process did before, and
  whatever the two options), and the world after any method called on a reachable one,
  whether the method returned or raised.
\<close>

inductive reachable :: "kernel \<Rightarrow> world \<Rightarrow> bool" for kern :: kernel where
  after_init: "reachable kern (snd (init kern cmin cmax w0))"
| after_synchronize: "reachable kern w \<Longrightarrow> reachable kern (snd (synchronize kern w))"
| after_del: "reachable kern w \<Longrightarrow> reachable kern (snd (del kern w))"
| after_boolean: "reachable kern w \<Longrightarrow> reachable kern (snd (perform kern c w))"
| after_add_rectangle:
    "reachable kern w \<Longrightarrow> reachable kern (w\<lparr>geom := snd (add_rectangle (geom w) e m)\<rparr>)"
| after_add_disk:
    "reachable kern w \<Longrightarrow> reachable kern (w\<lparr>geom := snd (add_disk (geom w) e m)\<rparr>)"
| after_add_ball:
    "reachable kern w \<Longrightarrow> reachable kern (w\<lparr>geom := snd (add_ball (geom w) e m)\<rparr>)"
| after_add_box:
    "reachable kern w \<Longrightarrow> reachable kern (w\<lparr>geom := snd (add_box (geom w) e m)\<rparr>)"
| after_add_cone:
    "reachable kern w \<Longrightarrow> reachable kern (w\<lparr>geom := snd (add_cone (geom w) e m)\<rparr>)"
| after_add_cylinder:
    "reachable kern w \<Longrightarrow> reachable kern (w\<lparr>geom := snd (add_cylinder (geom w) e)\<rparr>)"
| after_add_ellipsoid:
    "reachable kern w \<Longrightarrow> reachable kern (w\<lparr>geom := snd (add_ellipsoid (geom w) e)\<rparr>)"
| after_add_torus:
    "reachable kern w \<Longrightarrow> reachable kern (w\<lparr>geom := snd (add_torus (geom w) e)\<rparr>)"
| after_add_wedge:
    "reachable kern w \<Longrightarrow> reachable kern (w\<lparr>geom := snd (add_wedge (geom w) e)\<rparr>)"

section \<open>The left fold of the specification\<close>

text \<open>
  The specification describes N-ary intersection as a left fold over the operands after
  the first: the accumulator is the running result together with the calls the kernel
  has received; one step intersects the running result with the next operand, both
  operand sets removed, and takes the first group of the answer as the new running
  result. (Where the kernel gives no group, or raises, the fold has no new result and
  keeps the old one; the code stops there.)
\<close>

definition fold_step :: "kernel \<Rightarrow> pyval \<times> kcall list \<Rightarrow> entity \<Rightarrow> pyval \<times> kcall list" where
  "fold_step kern acc e =
     (case acc of (ent, calls) \<Rightarrow>
        (let c = Intersect (PyList [ent]) (PyList [dim_tags e]) True True
         in ((case kern calls c of Inr (o0 # os) \<Rightarrow> o0 | _ \<Rightarrow> ent), calls @ [c])))"

text \<open>
  The condition the specification puts on every step: the kernel answers the step's
  call, without raising, with at least one group, and all the groups of the answer are
  the same. \<open>steps_uniform kern ent calls es\<close> says so of every step of the fold over
  \<open>es\<close> that starts from the running result \<open>ent\<close> after the calls \<open>calls\<close>.
\<close>

fun steps_uniform :: "kernel \<Rightarrow> pyval \<Rightarrow> kcall list \<Rightarrow> entity list \<Rightarrow> bool" where
  "steps_uniform kern ent calls [] = True"
| "steps_uniform kern ent calls (e # es) =
     (case kern calls (Intersect (PyList [ent]) (PyList [dim_tags e]) True True) of
        Inl err \<Rightarrow> False
      | Inr [] \<Rightarrow> False
      | Inr (o0 # os) \<Rightarrow>
          list_all (\<lambda>item. o0 = item) os
          \<and> steps_uniform kern o0
               (calls @ [Intersect (PyList [ent]) (PyList [dim_tags e]) True True]) es)"

section \<open>Sample models, entities and kernels\<close>

text \<open>
  \<open>new_geometry\<close> is the object as \<^verbatim>\<open>__init__\<close> leaves it. \<open>ready_geometry\<close> is
  that object after a client has set \<^verbatim>\<open>_BOOLEAN_ID = 0\<close> and
  \<^verbatim>\<open>_GMSH_CODE = []\<close> on it.
\<close>

definition ready_geometry :: geometry where
  "ready_geometry = new_geometry\<lparr>BOOLEAN_ID := Some 0, GMSH_CODE := Some []\<rparr>"

definition ready_world :: world where
  "ready_world = \<lparr>geom = ready_geometry, kcalls = [], stdout = []\<rparr>"

text \<open>
  \<open>blank_world\<close> is the process before any model exists (no kernel call made, nothing
  printed); \<open>fresh_world kern\<close>, defined after the sample kernels, is the world after
  \<^verbatim>\<open>Geometry()\<close> has been constructed in it against the kernel \<open>kern\<close>.
\<close>

definition blank_world :: world where
  "blank_world = \<lparr>geom = new_geometry, kcalls = [], stdout = []\<rparr>"

definition ex_point :: entity where
  "ex_point = \<lparr>dimension = 0, ent_id = IdInt 7, dim_tags = DimTag 0 7, code = ''Point(7)''\<rparr>"

definition ex_rect :: entity where
  "ex_rect = \<lparr>dimension = 2, ent_id = IdInt 1, dim_tags = DimTag 2 1, code = ''Rectangle(1)''\<rparr>"

definition ex_disk :: entity where
  "ex_disk = \<lparr>dimension = 2, ent_id = IdInt 4, dim_tags = DimTag 2 4, code = ''Disk(4)''\<rparr>"

definition ex_box :: entity where
  "ex_box = \<lparr>dimension = 3, ent_id = IdInt 2, dim_tags = DimTag 3 2, code = ''Box(2)''\<rparr>"

definition ex_ball :: entity where
  "ex_ball = \<lparr>dimension = 3, ent_id = IdInt 3, dim_tags = DimTag 3 3, code = ''Sphere(3)''\<rparr>"

definition ex_cylinder :: entity where
  "ex_cylinder = \<lparr>dimension = 3, ent_id = IdInt 5, dim_tags = DimTag 3 5, code = ''Cylinder(5)''\<rparr>"

text \<open>
  Three kernels: one answers every call with a single group, one with the same group
  twice, one with two different groups.
\<close>

definition kern_single :: kernel where
  "kern_single calls c = Inr [DimTag 3 9]"

definition kern_twice :: kernel where
  "kern_twice calls c = Inr [DimTag 3 9, DimTag 3 9]"

definition kern_split :: kernel where
  "kern_split calls c = Inr [DimTag 3 9, DimTag 3 10]"

definition fresh_world :: "kernel \<Rightarrow> world" where
  "fresh_world kern = snd (init kern None None blank_world)"

section \<open>Properties of the primitive-shape methods\<close>

lemma add_shape_with_mesh_size:
  "add_rectangle self e (Some m) = (e, self\<lparr>SIZE_QUEUE := SIZE_QUEUE self @ [(e, m)]\<rparr>)"
  "add_disk self e (Some m) = (e, self\<lparr>SIZE_QUEUE := SIZE_QUEUE self @ [(e, m)]\<rparr>)"
  "add_ball self e (Some m) = (e, self\<lparr>SIZE_QUEUE := SIZE_QUEUE self @ [(e, m)]\<rparr>)"
  "add_box self e (Some m) = (e, self\<lparr>SIZE_QUEUE := SIZE_QUEUE self @ [(e, m)]\<rparr>)"
  "add_cone self e (Some m) = (e, self\<lparr>SIZE_QUEUE := SIZE_QUEUE self @ [(e, m)]\<rparr>)"
  by (simp_all add: add_rectangle_def add_disk_def add_ball_def add_box_def add_cone_def)

lemma add_shape_without_mesh_size:
  "add_rectangle self e None = (e, self)"
  "add_disk self e None = (e, self)"
  "add_ball self e None = (e, self)"
  "add_box self e None = (e, self)"
  "add_cone self e None = (e, self)"
  by (simp_all add: add_rectangle_def add_disk_def add_ball_def add_box_def add_cone_def)

text \<open>
  C3. Every \<^verbatim>\<open>add_<shape>\<close> is to take an optional mesh size and, when it is given,
  append one entry to the size queue as its only effect. Rectangle, disk, ball, box and
  cone do (the two lemmas above). Cylinder, ellipsoid, torus and wedge do not: whatever
  the model and the entity, \<^verbatim>\<open>add_cylinder\<close> leaves the size queue as it was, and on
  a model fresh from \<^verbatim>\<open>__init__\<close> it raises \<^verbatim>\<open>AttributeError\<close>, the attribute
  \<^verbatim>\<open>_GMSH_CODE\<close> never having been created; the three others are written the same.
\<close>

theorem add_cylinder_no_size_entry:
  "SIZE_QUEUE (snd (add_cylinder self p)) = SIZE_QUEUE self
   \<and> add_cylinder new_geometry p = (Inl AttributeError, new_geometry)
   \<and> add_ellipsoid self p = add_cylinder self p
   \<and> add_torus self p = add_cylinder self p
   \<and> add_wedge self p = add_cylinder self p"
  by (simp add: add_cylinder_def add_ellipsoid_def add_torus_def add_wedge_def new_geometry_def
        split: option.splits)

section \<open>Properties of the script-mode operation\<close>

subsection \<open>The branches of \<^verbatim>\<open>_boolean_operation\<close>\<close>

lemma find_legal_dim:
  "find (\<lambda>ldt. d = ldt) (map fst legal_dim_types) = (if d \<in> {1, 2, 3} then Some d else None)"
  by (simp add: legal_dim_types_def)

lemma bo_no_counter:
  "BOOLEAN_ID self = None \<Longrightarrow>
   boolean_operation self operation ins tools df dt = (Inl AttributeError, self)"
  by (simp add: boolean_operation_def)

lemma bo_no_inputs:
  "BOOLEAN_ID self = Some b \<Longrightarrow>
   boolean_operation self operation [] tools df dt =
     (Inl IndexError, self\<lparr>BOOLEAN_ID := Some (b + 1)\<rparr>)"
  by (simp add: boolean_operation_def)

lemma bo_illegal:
  "BOOLEAN_ID self = Some b \<Longrightarrow> dimension e0 \<notin> {1, 2, 3} \<Longrightarrow>
   boolean_operation self operation (e0 # rest) tools df dt =
     (Inl IllegalDimension, self\<lparr>BOOLEAN_ID := Some (b + 1)\<rparr>)"
  by (simp add: boolean_operation_def find_legal_dim)

lemma bo_incompatible:
  "BOOLEAN_ID self = Some b \<Longrightarrow> dimension e0 \<in> {1, 2, 3} \<Longrightarrow>
   \<not> list_all (\<lambda>e. dimension e = dimension e0) (rest @ tools) \<Longrightarrow>
   boolean_operation self operation (e0 # rest) tools df dt =
     (Inl IncompatibleDimension, self\<lparr>BOOLEAN_ID := Some (b + 1)\<rparr>)"
  by (simp add: boolean_operation_def find_legal_dim del: list_all_append)

lemma dimension_check_decides:
  assumes "BOOLEAN_ID self = Some b" and "dimension_check ins tools = Some err"
  shows "boolean_operation self operation ins tools df dt =
           (Inl err, self\<lparr>BOOLEAN_ID := Some (b + 1)\<rparr>)"
proof (cases ins)
  case Nil
  with assms show ?thesis by (simp add: dimension_check_def bo_no_inputs)
next
  case (Cons e0 rest)
  show ?thesis
  proof (cases "dimension e0 \<in> {1, 2, 3}")
    case False
    with assms Cons show ?thesis
      by (simp add: dimension_check_def find_legal_dim bo_illegal)
  next
    case True
    with assms(2) Cons
    have bad: "\<not> list_all (\<lambda>e. dimension e = dimension e0) (rest @ tools)"
      and err: "err = IncompatibleDimension"
      by (auto simp: dimension_check_def find_legal_dim split: if_splits simp del: list_all_append)
    from bo_incompatible[OF assms(1) True bad] Cons err show ?thesis by simp
  qed
qed

section \<open>Properties of the direct-kernel operations\<close>

subsection \<open>The object is left alone\<close>

lemma intersection_loop_geom:
  "geom (snd (intersection_loop kern ent es w)) = geom w"
  by (induction es arbitrary: ent w)
     (auto simp: kernel_call_def split: sum.splits list.splits prod.splits)

lemma intersection_geom: "geom (snd (boolean_intersection kern es w)) = geom w"
proof (cases es)
  case Nil
  then show ?thesis by (simp add: boolean_intersection_def)
next
  case (Cons e0 rest)
  have "snd (boolean_intersection kern (e0 # rest) w) =
        snd (intersection_loop kern (dim_tags e0) rest w)"
    by (simp add: boolean_intersection_def split: prod.splits sum.splits)
  with Cons show ?thesis by (simp add: intersection_loop_geom)
qed

lemma union_geom: "geom (snd (boolean_union kern es w)) = geom w"
  by (auto simp: boolean_union_def kernel_call_def split: list.splits sum.splits)

lemma difference_geom: "geom (snd (boolean_difference kern a b w)) = geom w"
  by (auto simp: boolean_difference_def kernel_call_def Let_def split: sum.splits)

text \<open>
  C10. Whatever the kernel answers, and whether the call returns or raises,
  \<^verbatim>\<open>boolean_intersection\<close>, \<^verbatim>\<open>boolean_union\<close> and \<^verbatim>\<open>boolean_difference\<close> leave
  the \<^verbatim>\<open>Geometry\<close> object as it was: the id counter and every deferred queue are the
  same before and after the call.
\<close>

theorem direct_operations_frame:
  "geom (snd (boolean_intersection kern es w)) = geom w
   \<and> geom (snd (boolean_union kern es w)) = geom w
   \<and> geom (snd (boolean_difference kern a b w)) = geom w"
  by (simp add: intersection_geom union_geom difference_geom)

subsection \<open>Union and difference\<close>

text \<open>
  C9. \<^verbatim>\<open>boolean_union\<close> on a non-empty entity list makes exactly one kernel call, a
  fuse of the first operand's dim-tags against those of all the others with
  \<^verbatim>\<open>removeObject\<close> and \<^verbatim>\<open>removeTool\<close> both true; what the kernel returns is
  wrapped unchanged in a composite entity labelled ``Union''.
\<close>

theorem union_single_fuse:
  assumes "entities \<noteq> []"
  shows "kcalls (snd (boolean_union kern entities w)) =
           kcalls w @ [Fuse (PyList [dim_tags (hd entities)])
                            (PyList (map dim_tags (tl entities))) True True]
       \<and> (kern (kcalls w) (Fuse (PyList [dim_tags (hd entities)])
                                  (PyList (map dim_tags (tl entities))) True True) = Inr out \<longrightarrow>
            fst (boolean_union kern entities w) = Inr (Boolean (PyList out) ''Union''))"
  using assms
  by (cases entities) (auto simp: boolean_union_def kernel_call_def split: sum.splits)

theorem union_single_fuse_witness:
  "[ex_box, ex_ball, ex_cylinder] \<noteq> []
   \<and> kcalls (snd (boolean_union kern_twice [ex_box, ex_ball, ex_cylinder] ready_world)) =
       [Fuse (PyList [DimTag 3 2]) (PyList [DimTag 3 3, DimTag 3 5]) True True]
   \<and> fst (boolean_union kern_twice [ex_box, ex_ball, ex_cylinder] ready_world) =
       Inr (Boolean (PyList [DimTag 3 9, DimTag 3 9]) ''Union'')"
proof -
  have h: "[ex_box, ex_ball, ex_cylinder] \<noteq> []" by simp
  from union_single_fuse[OF h, of kern_twice ready_world "[DimTag 3 9, DimTag 3 9]"]
  show ?thesis
    by (simp add: kern_twice_def ready_world_def ex_box_def ex_ball_def ex_cylinder_def)
qed

text \<open>
  C8. \<^verbatim>\<open>boolean_difference(A, B)\<close> makes exactly one kernel call, a cut of A's
  dim-tags by B's. If the kernel returns exactly one group, the result is a composite
  entity labelled ``Difference'' wrapping it; if it returns none or more than one, the
  call fails with InconsistentBooleanResult and returns nothing.
\<close>

theorem difference_single_cut:
  "kcalls (snd (boolean_difference kern A B w)) = kcalls w @ [Cut (dim_tags A) (dim_tags B)]
   \<and> (kern (kcalls w) (Cut (dim_tags A) (dim_tags B)) = Inr out \<longrightarrow>
        (length out = 1 \<longrightarrow>
           fst (boolean_difference kern A B w) = Inr (Boolean (PyList out) ''Difference''))
      \<and> (length out \<noteq> 1 \<longrightarrow>
           fst (boolean_difference kern A B w) = Inl InconsistentBooleanResult))"
  by (auto simp: boolean_difference_def kernel_call_def Let_def split: sum.splits)

theorem difference_single_cut_witness:
  "kern_split (kcalls ready_world) (Cut (dim_tags ex_box) (dim_tags ex_ball))
     = Inr [DimTag 3 9, DimTag 3 10]
   \<and> fst (boolean_difference kern_split ex_box ex_ball ready_world) = Inl InconsistentBooleanResult
   \<and> kern_single (kcalls ready_world) (Cut (dim_tags ex_box) (dim_tags ex_ball)) = Inr [DimTag 3 9]
   \<and> fst (boolean_difference kern_single ex_box ex_ball ready_world)
     = Inr (Boolean (PyList [DimTag 3 9]) ''Difference'')"
proof -
  have h2: "kern_split (kcalls ready_world) (Cut (dim_tags ex_box) (dim_tags ex_ball))
              = Inr [DimTag 3 9, DimTag 3 10]"
    by (simp add: kern_split_def)
  have h1: "kern_single (kcalls ready_world) (Cut (dim_tags ex_box) (dim_tags ex_ball))
              = Inr [DimTag 3 9]"
    by (simp add: kern_single_def)
  from difference_single_cut[of kern_split ex_box ex_ball ready_world "[DimTag 3 9, DimTag 3 10]"]
       difference_single_cut[of kern_single ex_box ex_ball ready_world "[DimTag 3 9]"] h1 h2
  show ?thesis by simp
qed

subsection \<open>Intersection\<close>

text \<open>
  C7. With a single operand the loop body never runs: no kernel call is made, nothing
  else changes, and the operand's dim-tag is wrapped as an ``Intersection'' entity.
\<close>

theorem intersection_single_operand:
  "boolean_intersection kern [A] w = (Inr (Boolean (PyList [dim_tags A]) ''Intersection''), w)"
  by (simp add: boolean_intersection_def)

lemma intersection_loop_append:
  "intersection_loop kern ent (xs @ ys) w =
     (case intersection_loop kern ent xs w of
        (Inl err, w') \<Rightarrow> (Inl err, w')
      | (Inr ent', w') \<Rightarrow> intersection_loop kern ent' ys w')"
  by (induction xs arbitrary: ent w)
     (auto simp: kernel_call_def split: sum.splits list.splits prod.splits)

lemma intersection_loop_fold:
  "intersection_loop kern ent es w = (Inr r, w') \<Longrightarrow>
   foldl (fold_step kern) (ent, kcalls w) es = (r, kcalls w') \<and> w' = w\<lparr>kcalls := kcalls w'\<rparr>"
proof (induction es arbitrary: ent w)
  case Nil
  then show ?case by simp
next
  case (Cons e es)
  let ?c = "Intersect (PyList [ent]) (PyList [dim_tags e]) True True"
  from Cons.prems obtain o0 os where out: "kern (kcalls w) ?c = Inr (o0 # os)"
    and rec: "intersection_loop kern o0 es (w\<lparr>kcalls := kcalls w @ [?c]\<rparr>) = (Inr r, w')"
    by (auto simp: kernel_call_def split: sum.splits list.splits if_splits)
  from Cons.IH[OF rec] out show ?case
    by (simp add: fold_step_def)
qed

lemma fold_step_snd:
  "snd (fold_step kern acc e) =
     snd acc @ [Intersect (PyList [fst acc]) (PyList [dim_tags e]) True True]"
  by (cases acc) (simp add: fold_step_def Let_def)

lemma fold_log_length:
  "length (snd (foldl (fold_step kern) acc es)) = length (snd acc) + length es"
  by (induction es arbitrary: acc) (simp_all add: fold_step_snd)

lemma fold_log_prefix:
  "take (length (snd acc)) (snd (foldl (fold_step kern) acc es)) = snd acc"
  by (induction es rule: rev_induct) (simp_all add: fold_step_snd fold_log_length)

lemma fold_log_nth:
  "k < length es \<Longrightarrow>
   snd (foldl (fold_step kern) acc es) ! (length (snd acc) + k) =
     Intersect (PyList [fst (foldl (fold_step kern) acc (take k es))])
               (PyList [dim_tags (es ! k)]) True True"
proof (induction es arbitrary: k rule: rev_induct)
  case Nil
  then show ?case by simp
next
  case (snoc x xs)
  show ?case
  proof (cases "k < length xs")
    case True
    with snoc.IH[OF True] show ?thesis
      by (simp add: fold_step_snd nth_append fold_log_length)
  next
    case False
    with snoc.prems have "k = length xs" by simp
    then show ?thesis
      by (simp add: fold_step_snd nth_append fold_log_length)
  qed
qed

lemma fresh_world_samples:
  "fresh_world kern_single = \<lparr>geom = new_geometry, kcalls = [Initialize], stdout = []\<rparr>"
  "fresh_world kern_twice = \<lparr>geom = new_geometry, kcalls = [Initialize], stdout = []\<rparr>"
  "fresh_world kern_split = \<lparr>geom = new_geometry, kcalls = [Initialize], stdout = []\<rparr>"
  by (simp_all add: fresh_world_def init_def set_number_def kernel_call_def blank_world_def
        kern_single_def kern_twice_def kern_split_def)

lemma intersection_loop_uniform:
  "steps_uniform kern ent (kcalls w) es \<Longrightarrow>
   intersection_loop kern ent es w =
     (Inr (fst (foldl (fold_step kern) (ent, kcalls w) es)),
      w\<lparr>kcalls := snd (foldl (fold_step kern) (ent, kcalls w) es)\<rparr>)"
proof (induction es arbitrary: ent w)
  case Nil
  then show ?case by simp
next
  case (Cons e es)
  let ?c = "Intersect (PyList [ent]) (PyList [dim_tags e]) True True"
  from Cons.prems obtain o0 os where out: "kern (kcalls w) ?c = Inr (o0 # os)"
    and same: "list_all (\<lambda>item. o0 = item) os"
    and rest: "steps_uniform kern o0 (kcalls w @ [?c]) es"
    by (auto split: sum.splits list.splits)
  let ?w1 = "w\<lparr>kcalls := kcalls w @ [?c]\<rparr>"
  from rest have "steps_uniform kern o0 (kcalls ?w1) es" by simp
  from Cons.IH[OF this] out same show ?case
    by (simp add: kernel_call_def fold_step_def)
qed

lemma intersection_loop_returns:
  "intersection_loop kern ent es w = (Inr r, w') \<Longrightarrow> steps_uniform kern ent (kcalls w) es"
proof (induction es arbitrary: ent w)
  case Nil
  then show ?case by simp
next
  case (Cons e es)
  let ?c = "Intersect (PyList [ent]) (PyList [dim_tags e]) True True"
  from Cons.prems obtain o0 os where out: "kern (kcalls w) ?c = Inr (o0 # os)"
    and same: "list_all (\<lambda>item. o0 = item) os"
    and rec: "intersection_loop kern o0 es (w\<lparr>kcalls := kcalls w @ [?c]\<rparr>) = (Inr r, w')"
    by (auto simp: kernel_call_def split: sum.splits list.splits if_splits)
  from Cons.IH[OF rec] out same show ?case by simp
qed

text \<open>
  C6, as amended. For every entity list \<open>[A1, ..., An]\<close> with \<open>n \<ge> 2\<close> given to
  \<^verbatim>\<open>boolean_intersection\<close>, if at every fold step the kernel answers with at least one
  group and all the groups of the answer are the same, the call returns and its result
  is that of the left fold: the kernel has received exactly \<open>n - 1\<close> further calls,
  the \<open>k\<close>-th of them the intersection of the running result after \<open>k\<close> steps with
  the dim-tags of the next operand, \<^verbatim>\<open>removeObject\<close> and \<^verbatim>\<open>removeTool\<close> both
  true, and the final running result is returned wrapped as an ``Intersection''
  entity. The call returns under no other condition.
\<close>

theorem intersection_left_fold:
  "(steps_uniform kern (dim_tags a) (kcalls w) rest \<longrightarrow>
      boolean_intersection kern (a # rest) w =
        (Inr (Boolean (PyList [fst (foldl (fold_step kern) (dim_tags a, kcalls w) rest)])
                ''Intersection''),
         w\<lparr>kcalls := snd (foldl (fold_step kern) (dim_tags a, kcalls w) rest)\<rparr>)
    \<and> length (snd (foldl (fold_step kern) (dim_tags a, kcalls w) rest))
        = length (kcalls w) + length rest
    \<and> take (length (kcalls w)) (snd (foldl (fold_step kern) (dim_tags a, kcalls w) rest))
        = kcalls w
    \<and> (\<forall>k < length rest.
          snd (foldl (fold_step kern) (dim_tags a, kcalls w) rest) ! (length (kcalls w) + k) =
            Intersect (PyList [fst (foldl (fold_step kern) (dim_tags a, kcalls w) (take k rest))])
                      (PyList [dim_tags (rest ! k)]) True True))
   \<and> (\<forall>r w'. boolean_intersection kern (a # rest) w = (Inr r, w') \<longrightarrow>
          steps_uniform kern (dim_tags a) (kcalls w) rest)"
proof (intro conjI impI allI)
  assume u: "steps_uniform kern (dim_tags a) (kcalls w) rest"
  show "boolean_intersection kern (a # rest) w =
        (Inr (Boolean (PyList [fst (foldl (fold_step kern) (dim_tags a, kcalls w) rest)])
                ''Intersection''),
         w\<lparr>kcalls := snd (foldl (fold_step kern) (dim_tags a, kcalls w) rest)\<rparr>)"
    by (simp add: boolean_intersection_def intersection_loop_uniform[OF u])
next
  show "length (snd (foldl (fold_step kern) (dim_tags a, kcalls w) rest))
        = length (kcalls w) + length rest"
    using fold_log_length[of kern "(dim_tags a, kcalls w)" rest] by simp
next
  show "take (length (kcalls w)) (snd (foldl (fold_step kern) (dim_tags a, kcalls w) rest))
        = kcalls w"
    using fold_log_prefix[of "(dim_tags a, kcalls w)" kern rest] by simp
next
  fix k
  assume "k < length rest"
  then show "snd (foldl (fold_step kern) (dim_tags a, kcalls w) rest) ! (length (kcalls w) + k) =
            Intersect (PyList [fst (foldl (fold_step kern) (dim_tags a, kcalls w) (take k rest))])
                      (PyList [dim_tags (rest ! k)]) True True"
    using fold_log_nth[of k rest kern "(dim_tags a, kcalls w)"] by simp
next
  fix r w'
  assume "boolean_intersection kern (a # rest) w = (Inr r, w')"
  then obtain ent where "intersection_loop kern (dim_tags a) rest w = (Inr ent, w')"
    by (auto simp: boolean_intersection_def split: prod.splits sum.splits)
  then show "steps_uniform kern (dim_tags a) (kcalls w) rest"
    by (rule intersection_loop_returns)
qed

theorem intersection_left_fold_witness:
  "steps_uniform kern_twice (dim_tags ex_box) (kcalls (fresh_world kern_twice)) [ex_ball, ex_cylinder]
   \<and> boolean_intersection kern_twice [ex_box, ex_ball, ex_cylinder] (fresh_world kern_twice) =
       (Inr (Boolean (PyList [DimTag 3 9]) ''Intersection''),
        (fresh_world kern_twice)\<lparr>kcalls :=
          [Initialize,
           Intersect (PyList [DimTag 3 2]) (PyList [DimTag 3 3]) True True,
           Intersect (PyList [DimTag 3 9]) (PyList [DimTag 3 5]) True True]\<rparr>)"
proof -
  have k: "kcalls (fresh_world kern_twice) = [Initialize]"
    by (simp add: fresh_world_samples)
  have h: "steps_uniform kern_twice (dim_tags ex_box) (kcalls (fresh_world kern_twice))
             [ex_ball, ex_cylinder]"
    by (simp add: k kern_twice_def)
  have f: "foldl (fold_step kern_twice) (dim_tags ex_box, kcalls (fresh_world kern_twice))
             [ex_ball, ex_cylinder] =
           (DimTag 3 9,
            [Initialize,
             Intersect (PyList [DimTag 3 2]) (PyList [DimTag 3 3]) True True,
             Intersect (PyList [DimTag 3 9]) (PyList [DimTag 3 5]) True True])"
    by (simp add: k fold_step_def kern_twice_def ex_box_def ex_ball_def ex_cylinder_def)
  from intersection_left_fold[of kern_twice ex_box "fresh_world kern_twice" "[ex_ball, ex_cylinder]"] h
  show ?thesis unfolding f by simp
qed

text \<open>
  C6 as stated fails: on three operands, against a kernel whose answer to the first
  step holds two different groups, one kernel call is made, not two, and the call
  raises instead of returning an entity.
\<close>

theorem intersection_cut_short:
  "boolean_intersection kern_split [ex_box, ex_ball, ex_cylinder] (fresh_world kern_split) =
     (Inl InconsistentBooleanResult,
      (fresh_world kern_split)\<lparr>kcalls :=
         [Initialize, Intersect (PyList [DimTag 3 2]) (PyList [DimTag 3 3]) True True]\<rparr>)
   \<and> length [ex_box, ex_ball, ex_cylinder] - 1 = 2"
  by (simp add: boolean_intersection_def kernel_call_def kern_split_def fresh_world_samples
        ex_box_def ex_ball_def ex_cylinder_def)

text \<open>
  C5, as amended. In \<^verbatim>\<open>boolean_intersection\<close> on a list of at least two entities,
  take any operand after the first, the steps before it having succeeded. If the
  kernel's answer to the step for that operand holds a group different from its first
  group, the call fails with InconsistentBooleanResult and no further step runs: the
  kernel has received that one call more and none for the operands after it. If the
  answer is one group or several identical groups, it is accepted and the fold goes on
  with that group: the rest of the call is the intersection of that group with the
  operands that remain.
\<close>

theorem intersection_stops_at_mixed_result:
  assumes "intersection_loop kern (dim_tags a) pre w = (Inr ent, w1)"
    and "kern (kcalls w1) (Intersect (PyList [ent]) (PyList [dim_tags e]) True True) = Inr out"
  shows "((\<exists>item \<in> set out. item \<noteq> out ! 0) \<longrightarrow>
            boolean_intersection kern (a # pre @ e # post) w =
              (Inl InconsistentBooleanResult,
               w1\<lparr>kcalls := kcalls w1 @
                     [Intersect (PyList [ent]) (PyList [dim_tags e]) True True]\<rparr>))
       \<and> (out \<noteq> [] \<and> (\<forall>item \<in> set out. item = out ! 0) \<longrightarrow>
            (\<forall>x :: entity. dim_tags x = out ! 0 \<longrightarrow>
               boolean_intersection kern (a # pre @ e # post) w =
                 boolean_intersection kern (x # post)
                   (w1\<lparr>kcalls := kcalls w1 @
                         [Intersect (PyList [ent]) (PyList [dim_tags e]) True True]\<rparr>)))"
proof (intro conjI impI allI)
  assume mixed: "\<exists>item \<in> set out. item \<noteq> out ! 0"
  then obtain o0 os where out: "out = o0 # os" by (cases out) auto
  with mixed have "\<not> list_all (\<lambda>item. o0 = item) out"
    unfolding list_all_iff by fastforce
  with assms out show "boolean_intersection kern (a # pre @ e # post) w =
     (Inl InconsistentBooleanResult,
      w1\<lparr>kcalls := kcalls w1 @ [Intersect (PyList [ent]) (PyList [dim_tags e]) True True]\<rparr>)"
    by (simp add: boolean_intersection_def intersection_loop_append kernel_call_def)
next
  fix x :: entity
  assume same: "out \<noteq> [] \<and> (\<forall>item \<in> set out. item = out ! 0)" and x: "dim_tags x = out ! 0"
  then obtain o0 os where out: "out = o0 # os" by (cases out) auto
  with same have "list_all (\<lambda>item. o0 = item) out"
    unfolding list_all_iff by fastforce
  with assms out x show "boolean_intersection kern (a # pre @ e # post) w =
      boolean_intersection kern (x # post)
        (w1\<lparr>kcalls := kcalls w1 @ [Intersect (PyList [ent]) (PyList [dim_tags e]) True True]\<rparr>)"
    by (simp add: boolean_intersection_def intersection_loop_append kernel_call_def)
qed

theorem intersection_stops_at_mixed_result_witness:
  "intersection_loop kern_split (dim_tags ex_box) [] (fresh_world kern_split)
     = (Inr (DimTag 3 2), fresh_world kern_split)
   \<and> kern_split (kcalls (fresh_world kern_split))
        (Intersect (PyList [DimTag 3 2]) (PyList [dim_tags ex_ball]) True True)
       = Inr [DimTag 3 9, DimTag 3 10]
   \<and> [DimTag 3 9, DimTag 3 10] ! 1 \<noteq> [DimTag 3 9, DimTag 3 10] ! 0
   \<and> boolean_intersection kern_split [ex_box, ex_ball, ex_cylinder] (fresh_world kern_split) =
       (Inl InconsistentBooleanResult,
        (fresh_world kern_split)\<lparr>kcalls := kcalls (fresh_world kern_split) @
           [Intersect (PyList [DimTag 3 2]) (PyList [dim_tags ex_ball]) True True]\<rparr>)
   \<and> intersection_loop kern_twice (dim_tags ex_box) [] (fresh_world kern_twice)
     = (Inr (DimTag 3 2), fresh_world kern_twice)
   \<and> kern_twice (kcalls (fresh_world kern_twice))
        (Intersect (PyList [DimTag 3 2]) (PyList [dim_tags ex_ball]) True True)
       = Inr [DimTag 3 9, DimTag 3 9]
   \<and> boolean_intersection kern_twice [ex_box, ex_ball, ex_cylinder] (fresh_world kern_twice) =
       boolean_intersection kern_twice [ex_rect\<lparr>dim_tags := DimTag 3 9\<rparr>, ex_cylinder]
         ((fresh_world kern_twice)\<lparr>kcalls := kcalls (fresh_world kern_twice) @
           [Intersect (PyList [DimTag 3 2]) (PyList [dim_tags ex_ball]) True True]\<rparr>)"
proof -
  have h1: "intersection_loop kern_split (dim_tags ex_box) [] (fresh_world kern_split)
              = (Inr (DimTag 3 2), fresh_world kern_split)"
    by (simp add: ex_box_def)
  have h2: "kern_split (kcalls (fresh_world kern_split))
              (Intersect (PyList [DimTag 3 2]) (PyList [dim_tags ex_ball]) True True)
            = Inr [DimTag 3 9, DimTag 3 10]"
    by (simp add: kern_split_def)
  have g1: "intersection_loop kern_twice (dim_tags ex_box) [] (fresh_world kern_twice)
              = (Inr (DimTag 3 2), fresh_world kern_twice)"
    by (simp add: ex_box_def)
  have g2: "kern_twice (kcalls (fresh_world kern_twice))
              (Intersect (PyList [DimTag 3 2]) (PyList [dim_tags ex_ball]) True True)
            = Inr [DimTag 3 9, DimTag 3 9]"
    by (simp add: kern_twice_def)
  from intersection_stops_at_mixed_result[OF h1 h2, of "[ex_cylinder]"]
       intersection_stops_at_mixed_result[OF g1 g2, of "[ex_cylinder]"] h1 h2 g1 g2
  show ?thesis by simp
qed

text \<open>
  C5 as stated fails: a kernel that answers every step with two groups, the same one
  twice, has fragmented the result into more than one group, and the call returns an
  ``Intersection'' entity all the same, after running both steps.
\<close>

theorem duplicate_groups_accepted:
  "kern_twice (kcalls (fresh_world kern_twice))
      (Intersect (PyList [dim_tags ex_box]) (PyList [dim_tags ex_ball]) True True)
     = Inr [DimTag 3 9, DimTag 3 9]
   \<and> length [DimTag 3 9, DimTag 3 9] = 2
   \<and> boolean_intersection kern_twice [ex_box, ex_ball, ex_cylinder] (fresh_world kern_twice) =
       (Inr (Boolean (PyList [DimTag 3 9]) ''Intersection''),
        (fresh_world kern_twice)\<lparr>kcalls :=
          [Initialize,
           Intersect (PyList [DimTag 3 2]) (PyList [DimTag 3 3]) True True,
           Intersect (PyList [DimTag 3 9]) (PyList [DimTag 3 5]) True True]\<rparr>)"
  by (simp add: boolean_intersection_def kernel_call_def kern_twice_def fresh_world_samples
        ex_box_def ex_ball_def ex_cylinder_def)

section \<open>Script-mode operations on the models the program builds\<close>

lemma init_geom: "geom (snd (init kern cmin cmax w0)) = new_geometry"
  by (cases cmin; cases cmax)
     (simp_all add: init_def set_number_def kernel_call_def Let_def split: sum.splits)

lemma synchronize_geom: "geom (snd (synchronize kern w)) = geom w"
  by (simp add: synchronize_def kernel_call_def split: sum.splits)

lemma del_geom: "geom (snd (del kern w)) = geom w"
  by (simp add: del_def kernel_call_def split: sum.splits)

lemma script_call_without_counter:
  "BOOLEAN_ID (geom w) = None \<Longrightarrow>
   perform kern (CallFragments ins tools df dt) w = (Inl AttributeError, w)"
  by (simp add: boolean_fragments_def bo_no_counter)

lemma perform_geom_without_counter:
  "BOOLEAN_ID (geom w) = None \<Longrightarrow> geom (snd (perform kern c w)) = geom w"
  by (cases c)
     (simp_all add: script_call_without_counter intersection_geom union_geom difference_geom
        del: perform.simps(1))

lemma add_with_size_attrs:
  "BOOLEAN_ID (snd (add_rectangle g e m)) = BOOLEAN_ID g"
  "GMSH_CODE (snd (add_rectangle g e m)) = GMSH_CODE g"
  "BOOLEAN_ID (snd (add_disk g e m)) = BOOLEAN_ID g"
  "GMSH_CODE (snd (add_disk g e m)) = GMSH_CODE g"
  "BOOLEAN_ID (snd (add_ball g e m)) = BOOLEAN_ID g"
  "GMSH_CODE (snd (add_ball g e m)) = GMSH_CODE g"
  "BOOLEAN_ID (snd (add_box g e m)) = BOOLEAN_ID g"
  "GMSH_CODE (snd (add_box g e m)) = GMSH_CODE g"
  "BOOLEAN_ID (snd (add_cone g e m)) = BOOLEAN_ID g"
  "GMSH_CODE (snd (add_cone g e m)) = GMSH_CODE g"
  by (simp_all add: add_rectangle_def add_disk_def add_ball_def add_box_def add_cone_def
        split: option.splits)

lemma add_with_code_unchanged:
  "GMSH_CODE g = None \<Longrightarrow> snd (add_cylinder g e) = g"
  "GMSH_CODE g = None \<Longrightarrow> snd (add_ellipsoid g e) = g"
  "GMSH_CODE g = None \<Longrightarrow> snd (add_torus g e) = g"
  "GMSH_CODE g = None \<Longrightarrow> snd (add_wedge g e) = g"
  by (simp_all add: add_cylinder_def add_ellipsoid_def add_torus_def add_wedge_def)

lemma reachable_attributes:
  "reachable kern w \<Longrightarrow> BOOLEAN_ID (geom w) = None \<and> GMSH_CODE (geom w) = None"
proof (induction rule: reachable.induct)
  case (after_init cmin cmax w0)
  show ?case by (simp add: init_geom new_geometry_def)
next
  case (after_synchronize w)
  then show ?case by (simp add: synchronize_geom)
next
  case (after_del w)
  then show ?case by (simp add: del_geom)
next
  case (after_boolean w c)
  then show ?case by (simp add: perform_geom_without_counter)
qed (simp_all add: add_with_size_attrs add_with_code_unchanged)

lemma reachable_fresh: "reachable kern (fresh_world kern)"
  unfolding fresh_world_def by (rule after_init)



text \<open>
  C4. The operation is to fail with IllegalDimension exactly when the first input's
  dimension is not 1, 2 or 3, and with IncompatibleDimension exactly when another
  operand's dimension differs from the first's. On every model the program builds it
  fails with \<^verbatim>\<open>AttributeError\<close> instead, whatever the operands: with neither of the
  two errors where the checks of lines 110 to 122 would raise one, and also where they
  would pass.
\<close>

theorem validation_never_reached:
  assumes "reachable kern w"
  shows "fst (boolean_operation (geom w) operation ins tools df dt) = Inl AttributeError
       \<and> (dimension_check ins tools = Some IllegalDimension \<longrightarrow>
            fst (boolean_operation (geom w) operation ins tools df dt) \<noteq> Inl IllegalDimension)
       \<and> (dimension_check ins tools = Some IncompatibleDimension \<longrightarrow>
            fst (boolean_operation (geom w) operation ins tools df dt) \<noteq> Inl IncompatibleDimension)
       \<and> (dimension_check ins tools = None \<longrightarrow>
            (\<forall>r. fst (boolean_operation (geom w) operation ins tools df dt) \<noteq> Inr r))"
proof -
  from reachable_attributes[OF assms] have "BOOLEAN_ID (geom w) = None" by simp
  then show ?thesis by (simp add: bo_no_counter)
qed

theorem validation_never_reached_witness:
  "reachable kern_single (fresh_world kern_single)
   \<and> dimension_check [ex_point] [] = Some IllegalDimension
   \<and> fst (boolean_operation (geom (fresh_world kern_single)) ''BooleanFragments''
            [ex_point] [] True True) = Inl AttributeError
   \<and> dimension_check [ex_rect, ex_disk] [ex_box] = Some IncompatibleDimension
   \<and> fst (boolean_operation (geom (fresh_world kern_single)) ''BooleanFragments''
            [ex_rect, ex_disk] [ex_box] True True) = Inl AttributeError"
proof -
  have h: "reachable kern_single (fresh_world kern_single)" by (rule reachable_fresh)
  have d1: "dimension_check [ex_point] [] = Some IllegalDimension"
    by (simp add: dimension_check_def legal_dim_types_def ex_point_def)
  have d2: "dimension_check [ex_rect, ex_disk] [ex_box] = Some IncompatibleDimension"
    by (simp add: dimension_check_def legal_dim_types_def ex_rect_def ex_disk_def ex_box_def)
  from validation_never_reached[OF h, of "''BooleanFragments''" "[ex_point]" "[]" True True]
       validation_never_reached[OF h, of "''BooleanFragments''" "[ex_rect, ex_disk]" "[ex_box]"
         True True] h d1 d2
  show ?thesis by simp
qed

subsection \<open>Sequences of calls\<close>

lemma run_Cons_fst:
  "fst (run kern (x # cs) w) = fst (perform kern x w) # fst (run kern cs (snd (perform kern x w)))"
  by (simp split: prod.splits)

lemma run_Cons_snd:
  "snd (run kern (x # cs) w) = snd (run kern cs (snd (perform kern x w)))"
  by (simp split: prod.splits)

lemma run_reachable: "reachable kern w \<Longrightarrow> reachable kern (snd (run kern cs w))"
proof (induction cs arbitrary: w)
  case Nil
  then show ?case by simp
next
  case (Cons x cs)
  from Cons.prems have "reachable kern (snd (perform kern x w))" by (rule after_boolean)
  from Cons.IH[OF this] show ?case by (simp add: run_Cons_snd del: run.simps)
qed

lemma run_script_result:
  "reachable kern w \<Longrightarrow> i < length cs \<Longrightarrow> is_script (cs ! i) \<Longrightarrow>
   fst (run kern cs w) ! i = Inl AttributeError"
proof (induction cs arbitrary: w i)
  case Nil
  then show ?case by simp
next
  case (Cons x cs)
  show ?case
  proof (cases i)
    case 0
    with Cons.prems(3) obtain ins tools df dt where x: "x = CallFragments ins tools df dt"
      by (cases x) simp_all
    from reachable_attributes[OF Cons.prems(1)] have "BOOLEAN_ID (geom w) = None" by simp
    from script_call_without_counter[OF this, of kern ins tools df dt] 0 x show ?thesis
      by (simp add: run_Cons_fst del: run.simps perform.simps)
  next
    case (Suc j)
    from Cons.prems(1) have r: "reachable kern (snd (perform kern x w))" by (rule after_boolean)
    from Cons.prems Suc have "j < length cs" "is_script (cs ! j)" by simp_all
    from Cons.IH[OF r this] Suc show ?thesis
      by (simp add: run_Cons_fst del: run.simps)
  qed
qed

text \<open>
  C2. Boolean operations are to be numbered in call order, a successful script-mode
  operation returning an entity named \<open>bo<N>\<close>. On every model the program builds, and
  across every sequence of boolean operations on it, no script-mode operation is ever
  named: each one raises \<^verbatim>\<open>AttributeError\<close> at line 107, whatever its operands, and
  the model still has no id counter at the end of the sequence.
\<close>

theorem script_calls_never_named:
  assumes "reachable kern w"
  shows "(\<forall>i < length cs. is_script (cs ! i) \<longrightarrow> fst (run kern cs w) ! i = Inl AttributeError)
       \<and> BOOLEAN_ID (geom (snd (run kern cs w))) = None"
  using run_script_result[OF assms] reachable_attributes[OF run_reachable[OF assms]]
  by blast

theorem script_calls_never_named_witness:
  "reachable kern_single (fresh_world kern_single)
   \<and> is_script ([CallUnion [ex_box, ex_ball], CallFragments [ex_rect] [ex_disk] True True] ! 1)
   \<and> dimension_check [ex_rect] [ex_disk] = None
   \<and> fst (run kern_single
            [CallUnion [ex_box, ex_ball], CallFragments [ex_rect] [ex_disk] True True]
            (fresh_world kern_single)) ! 1 = Inl AttributeError"
proof -
  have h: "reachable kern_single (fresh_world kern_single)" by (rule reachable_fresh)
  have d: "dimension_check [ex_rect] [ex_disk] = None"
    by (simp add: dimension_check_def legal_dim_types_def ex_rect_def ex_disk_def)
  from script_calls_never_named[OF h,
         of "[CallUnion [ex_box, ex_ball], CallFragments [ex_rect] [ex_disk] True True]"] h d
  show ?thesis by simp
qed

end
